theory Spec2Isabelle
  imports Main "HOL-Library.Word"
begin

section \<open>Data model of \<open>internal/state/rollback.go\<close>\<close>

text \<open>
  Go's \<open>int64\<close> is a 64-bit word: \<open>+\<close> and \<open>-\<close> wrap around, equality is equality of
  words, and the order \<open>a > b\<close> is the signed one, written \<open>sint b < sint a\<close>.
  A \<open>[]byte\<close> is an optional list of bytes, \<open>None\<close> being the nil slice.
\<close>

type_synonym int64 = "64 word"
type_synonym uint64 = "64 word"
type_synonym bytes = "8 word list option"

text \<open>
  Errors are values.  \<open>ErrorsNew\<close> is \<open>errors.New\<close> (and any error a collaborator
  makes up); every other constructor is one \<open>fmt.Errorf\<close> call of the file, holding
  the arguments of its format string.
\<close>

datatype error =
    ErrorsNew string
  | LoadPrivValFailed error        \<comment> \<open>failed to load private validator file: %w\<close>
  | ResetPrivValFailed error       \<comment> \<open>failed to reset private validator file: %w\<close>
  | RemoveFinalBlockFailed error   \<comment> \<open>failed to remove final block from blockstore: %w\<close>
  | HeightMismatch int64 int64     \<comment> \<open>statestore height (%d) is not one below or equal to blockstore height (%d)\<close>
  | BlockNotFound int64            \<comment> \<open>block at height %d not found\<close>
  | SaveRolledBackFailed error     \<comment> \<open>failed to save rolled back state: %w\<close>

text \<open>The block header and block meta, with the fields that \<open>Rollback\<close> reads.\<close>

record 't Header =
  Header_Height :: int64
  Header_Time :: 't
  Header_AppHash :: bytes
  Header_LastResultsHash :: bytes

record ('i, 't) BlockMeta =
  BlockID :: 'i
  Header :: "'t Header"

text \<open>
  Consensus parameters: \<open>Rollback\<close> reads \<open>Version.AppVersion\<close> only; the other
  parameter groups are carried along in \<open>Params_rest\<close>.
\<close>

record VersionParams =
  AppVersion :: uint64

record 'p ConsensusParams =
  Params_Version :: VersionParams
  Params_rest :: 'p

text \<open>The state, field by field as the composite literal of \<open>Rollback\<close> lists them.\<close>

record Consensus =
  Block :: uint64
  App :: uint64

record Version =
  Consensus :: Consensus
  Software :: string

record ('v, 'p, 'i, 't) State =
  Version :: Version
  ChainID :: string
  InitialHeight :: int64
  LastBlockHeight :: int64
  LastBlockID :: 'i
  LastBlockTime :: 't
  LastResultsHash :: bytes
  AppHash :: bytes
  NextValidators :: 'v
  Validators :: 'v
  LastValidators :: 'v
  LastHeightValidatorsChanged :: int64
  ConsensusParams :: "'p ConsensusParams"
  LastHeightConsensusParamsChanged :: int64

section \<open>Collaborators\<close>

text \<open>
  \<open>BlockStore\<close> and \<open>Store\<close> are interfaces, and package \<open>privval\<close>, the methods of
  \<open>config.PrivValidatorConfig\<close>, \<open>State.IsEmpty\<close> and the constants of package
  \<open>version\<close> are declared outside this file.  Each is a parameter of the model:
  a record of operations over the collaborator's own state (\<open>'b\<close> for the block
  store, \<open>'s\<close> for the state store, \<open>'f\<close> for the validator's key and state
  files).  A reading operation returns a value; a writing one returns the new
  state too, whether or not it reports an error.
\<close>

record ('b, 'i, 't) BlockStore =
  Height :: "'b \<Rightarrow> int64"
  LoadBlockMeta :: "'b \<Rightarrow> int64 \<Rightarrow> ('i, 't) BlockMeta option"
  DeleteLatestBlock :: "'b \<Rightarrow> error option \<times> 'b"

record ('s, 'v, 'p, 'i, 't) Store =
  Load :: "'s \<Rightarrow> error + ('v, 'p, 'i, 't) State"
  Save :: "'s \<Rightarrow> ('v, 'p, 'i, 't) State \<Rightarrow> error option \<times> 's"
  LoadValidators :: "'s \<Rightarrow> int64 \<Rightarrow> error + 'v"
  LoadConsensusParams :: "'s \<Rightarrow> int64 \<Rightarrow> error + 'p ConsensusParams"

record ('f, 'c, 'h) PrivVal =
  KeyFile :: "'c \<Rightarrow> string"
  StateFile :: "'c \<Rightarrow> string"
  LoadFilePV :: "'f \<Rightarrow> string \<Rightarrow> string \<Rightarrow> error + 'h"
  Reset :: "'f \<Rightarrow> 'h \<Rightarrow> error option \<times> 'f"

record ('v, 'p, 'i, 't) Build =
  IsEmpty :: "('v, 'p, 'i, 't) State \<Rightarrow> bool"
  BlockProtocol :: uint64
  TMVersion :: string

text \<open>
  The calls made to the collaborators, in order.  A \<open>Save\<close> is recorded with the
  state it is given.
\<close>

datatype 'st call =
    CallLoad
  | CallHeight
  | CallLoadBlockMeta int64
  | CallLoadValidators int64
  | CallLoadConsensusParams int64
  | CallSave 'st
  | CallDeleteLatestBlock
  | CallLoadFilePV string string
  | CallReset

record ('b, 's, 'f, 'st) world =
  bstore :: 'b
  sstore :: 's
  pvfiles :: 'f
  calls :: "'st call list"

definition called :: "'st call \<Rightarrow> ('b, 's, 'f, 'st) world \<Rightarrow> ('b, 's, 'f, 'st) world" where
  "called c w = w\<lparr>calls := calls w @ [c]\<rparr>"

text \<open>
  What a call of \<open>Rollback\<close> does: it returns its three results, or it panics
  (dereferencing a nil \<open>*config.PrivValidatorConfig\<close>).
\<close>

datatype outcome = Returns int64 bytes "error option" | Panics

section \<open>The code\<close>

text \<open>
  The two functions of the file.  Every call to a collaborator is recorded in
  the world and every \<open>return\<close> of the source is a branch here; the lines that
  \<open>Rollback\<close> prints to standard output (lines 45 and 145) are left out.
\<close>

definition resetPrivValidatorConfig ::
  "('f, 'c, 'h) PrivVal \<Rightarrow> 'c \<Rightarrow> ('b, 's, 'f, 'st) world \<Rightarrow> error option \<times> ('b, 's, 'f, 'st) world" where
  "resetPrivValidatorConfig pv privValidatorConfig w =
    (let w = called (CallLoadFilePV (KeyFile pv privValidatorConfig) (StateFile pv privValidatorConfig)) w in
     case LoadFilePV pv (pvfiles w) (KeyFile pv privValidatorConfig) (StateFile pv privValidatorConfig) of
       Inl loadErr \<Rightarrow> (Some (LoadPrivValFailed loadErr), w)
     | Inr filePv \<Rightarrow>
        (let w = called CallReset w;
             (resetErr, f') = Reset pv (pvfiles w) filePv;
             w = w\<lparr>pvfiles := f'\<rparr>
         in (case resetErr of
              Some e \<Rightarrow> (Some (ResetPrivValFailed e), w)
            | None \<Rightarrow> (None, w))))"

text \<open>
  Lines 84 to 133 of \<open>Rollback\<close>, which compute the rolled back state from the
  values loaded so far and touch no collaborator.  \<open>rollbackHeight\<close> is
  \<open>invalidState.LastBlockHeight - 1\<close>, as line 62 sets it.
\<close>

definition buildRolledBackState ::
  "('v, 'p, 'i, 't) Build \<Rightarrow> ('v, 'p, 'i, 't) State \<Rightarrow> ('i, 't) BlockMeta \<Rightarrow> ('i, 't) BlockMeta \<Rightarrow>
   'v \<Rightarrow> 'p ConsensusParams \<Rightarrow> bool \<Rightarrow> ('v, 'p, 'i, 't) State" where
  "buildRolledBackState build invalidState rollbackBlock latestBlock
     previousLastValidatorSet previousParams removeBlock =
    (let rollbackHeight = LastBlockHeight invalidState - 1;
         valChangeHeight = LastHeightValidatorsChanged invalidState;
         valChangeHeight =
           (if sint rollbackHeight < sint valChangeHeight then rollbackHeight + 1 else valChangeHeight);
         paramsChangeHeight = LastHeightConsensusParamsChanged invalidState;
         paramsChangeHeight =
           (if sint rollbackHeight < sint paramsChangeHeight then rollbackHeight + 1 else paramsChangeHeight);
         rolledBackAppHash = Header_LastResultsHash (Header latestBlock);
         rolledBackLastResultHash = Header_AppHash (Header latestBlock);
         rolledBackAppHash =
           (if removeBlock then Header_AppHash (Header rollbackBlock) else rolledBackAppHash);
         rolledBackLastResultHash =
           (if removeBlock then Header_LastResultsHash (Header rollbackBlock) else rolledBackLastResultHash)
     in \<lparr>
          Version = \<lparr>
            Consensus = \<lparr>
              Block = BlockProtocol build,
              App = AppVersion (Params_Version previousParams) \<rparr>,
            Software = TMVersion build \<rparr>,
          ChainID = ChainID invalidState,
          InitialHeight = InitialHeight invalidState,
          LastBlockHeight = Header_Height (Header rollbackBlock),
          LastBlockID = BlockID rollbackBlock,
          LastBlockTime = Header_Time (Header rollbackBlock),
          LastResultsHash = rolledBackAppHash,
          AppHash = rolledBackLastResultHash,
          NextValidators = Validators invalidState,
          Validators = LastValidators invalidState,
          LastValidators = previousLastValidatorSet,
          LastHeightValidatorsChanged = valChangeHeight,
          ConsensusParams = previousParams,
          LastHeightConsensusParamsChanged = paramsChangeHeight \<rparr>)"

definition Rollback ::
  "('v, 'p, 'i, 't) Build \<Rightarrow> ('f, 'c, 'h) PrivVal \<Rightarrow>
   ('b, 'i, 't) BlockStore \<Rightarrow> ('s, 'v, 'p, 'i, 't) Store \<Rightarrow> bool \<Rightarrow> 'c option \<Rightarrow>
   ('b, 's, 'f, ('v, 'p, 'i, 't) State) world \<Rightarrow>
   outcome \<times> ('b, 's, 'f, ('v, 'p, 'i, 't) State) world" where
  "Rollback build pv bs ss removeBlock privValidatorConfig w0 =
    (let w = called CallLoad w0 in
     case Load ss (sstore w) of
       Inl err \<Rightarrow> (Returns (- 1) None (Some err), w)
     | Inr invalidState \<Rightarrow>
     (if IsEmpty build invalidState then (Returns (- 1) None (Some (ErrorsNew ''no state found'')), w)
     else
     (let w = called CallHeight w;
          height = Height bs (bstore w)
     in
     if height = LastBlockHeight invalidState + 1 then
       (if removeBlock then
          (let w = called CallDeleteLatestBlock w;
               (err, b') = DeleteLatestBlock bs (bstore w);
               w = w\<lparr>bstore := b'\<rparr>
           in (case err of
                Some e \<Rightarrow> (Returns (- 1) None (Some (RemoveFinalBlockFailed e)), w)
              | None \<Rightarrow> (Returns (LastBlockHeight invalidState) (AppHash invalidState) None, w)))
        else (Returns (LastBlockHeight invalidState) (AppHash invalidState) None, w))
     else
     if height \<noteq> LastBlockHeight invalidState then
       (Returns (- 1) None (Some (HeightMismatch (LastBlockHeight invalidState) height)), w)
     else
     (let rollbackHeight = LastBlockHeight invalidState - 1;
          w = called (CallLoadBlockMeta rollbackHeight) w
     in
     case LoadBlockMeta bs (bstore w) rollbackHeight of
       None \<Rightarrow> (Returns (- 1) None (Some (BlockNotFound rollbackHeight)), w)
     | Some rollbackBlock \<Rightarrow>
     (let w = called (CallLoadBlockMeta (LastBlockHeight invalidState)) w in
     case LoadBlockMeta bs (bstore w) (LastBlockHeight invalidState) of
       None \<Rightarrow> (Returns (- 1) None (Some (BlockNotFound (LastBlockHeight invalidState))), w)
     | Some latestBlock \<Rightarrow>
     (let w = called (CallLoadValidators rollbackHeight) w in
     case LoadValidators ss (sstore w) rollbackHeight of
       Inl err \<Rightarrow> (Returns (- 1) None (Some err), w)
     | Inr previousLastValidatorSet \<Rightarrow>
     (let w = called (CallLoadConsensusParams (rollbackHeight + 1)) w in
     case LoadConsensusParams ss (sstore w) (rollbackHeight + 1) of
       Inl err \<Rightarrow> (Returns (- 1) None (Some err), w)
     | Inr previousParams \<Rightarrow>
     (let rolledBackState =
            buildRolledBackState build invalidState rollbackBlock latestBlock
              previousLastValidatorSet previousParams removeBlock;
          w = called (CallSave rolledBackState) w;
          (err, s') = Save ss (sstore w) rolledBackState;
          w = w\<lparr>sstore := s'\<rparr>
     in
     case err of
       Some e \<Rightarrow> (Returns (- 1) None (Some (SaveRolledBackFailed e)), w)
     | None \<Rightarrow>
     (if removeBlock then
       (let w = called CallDeleteLatestBlock w;
            (err, b') = DeleteLatestBlock bs (bstore w);
            w = w\<lparr>bstore := b'\<rparr>
        in (case err of
             Some e \<Rightarrow> (Returns (- 1) None (Some (RemoveFinalBlockFailed e)), w)
           | None \<Rightarrow>
             (case privValidatorConfig of
                None \<Rightarrow> (Panics, w)
              | Some cfg \<Rightarrow>
                (let (err, w) = resetPrivValidatorConfig pv cfg w in
                 (case err of
                   Some e \<Rightarrow> (Returns (- 1) None (Some e), w)
                 | None \<Rightarrow>
                   (Returns (LastBlockHeight rolledBackState) (AppHash rolledBackState) None, w))))))
     else (Returns (LastBlockHeight rolledBackState) (AppHash rolledBackState) None, w))))))))))"

section \<open>Observing a run\<close>

text \<open>
  The calls that a run from world \<open>w\<close> to world \<open>w'\<close> added, the states handed to
  \<open>Save\<close> among some calls, and the calls that touch the validator's signing
  checkpoint.
\<close>

definition new_calls :: "('b, 's, 'f, 'st) world \<Rightarrow> ('b, 's, 'f, 'st) world \<Rightarrow> 'st call list" where
  "new_calls w w' = drop (length (calls w)) (calls w')"

fun saved_states :: "'st call list \<Rightarrow> 'st list" where
  "saved_states [] = []"
| "saved_states (CallSave st # cs) = st # saved_states cs"
| "saved_states (_ # cs) = saved_states cs"

fun is_pv_call :: "'st call \<Rightarrow> bool" where
  "is_pv_call (CallLoadFilePV _ _) = True"
| "is_pv_call CallReset = True"
| "is_pv_call _ = False"

section \<open>In-memory collaborators\<close>

text \<open>
  Concrete collaborators on which the theorems below are exercised: a block
  store that is the list of its block metas by height, newest first; a state store
  holding the current state and the validator sets and consensus parameters
  by height; and a validator whose signing checkpoint is the triple of the
  last signed height, round and step.  A validator set is a pointer
  (\<open>None\<close> is nil), and a state is empty when its \<open>Validators\<close> is nil.
\<close>

type_synonym mem_state = "(nat option, unit, nat, nat) State"

definition mem_bs :: "((int64 \<times> (nat, nat) BlockMeta) list, nat, nat) BlockStore" where
  "mem_bs = \<lparr>
     Height = (\<lambda>b. case b of [] \<Rightarrow> 0 | (h, _) # _ \<Rightarrow> h),
     LoadBlockMeta = (\<lambda>b h. map_of b h),
     DeleteLatestBlock = (\<lambda>b. case b of [] \<Rightarrow> (Some (ErrorsNew ''no blocks''), b) | _ # ms \<Rightarrow> (None, ms)) \<rparr>"

record mem_store =
  current :: "mem_state option"
  validators :: "(int64 \<times> nat option) list"
  params :: "(int64 \<times> unit ConsensusParams) list"

definition mem_ss :: "(mem_store, nat option, unit, nat, nat) Store" where
  "mem_ss = \<lparr>
     Load = (\<lambda>s. case current s of None \<Rightarrow> Inl (ErrorsNew ''no state stored'') | Some st \<Rightarrow> Inr st),
     Save = (\<lambda>s st. (None, s\<lparr>current := Some st\<rparr>)),
     LoadValidators = (\<lambda>s h. case map_of (validators s) h of
                           None \<Rightarrow> Inl (ErrorsNew ''no validators at height'') | Some v \<Rightarrow> Inr v),
     LoadConsensusParams = (\<lambda>s h. case map_of (params s) h of
                           None \<Rightarrow> Inl (ErrorsNew ''no params at height'') | Some p \<Rightarrow> Inr p) \<rparr>"

type_synonym checkpoint = "int64 \<times> nat \<times> nat"

definition mem_pv :: "(checkpoint, string, unit) PrivVal" where
  "mem_pv = \<lparr>
     KeyFile = (\<lambda>root. root @ ''/priv_validator_key.json''),
     StateFile = (\<lambda>root. root @ ''/priv_validator_state.json''),
     LoadFilePV = (\<lambda>f k s. Inr ()),
     Reset = (\<lambda>f h. (None, (0, 0, 0))) \<rparr>"

text \<open>The same validator on a read-only disk: the reset fails and changes nothing.\<close>

definition readonly_pv :: "(checkpoint, string, unit) PrivVal" where
  "readonly_pv = mem_pv\<lparr>Reset := (\<lambda>f h. (Some (ErrorsNew ''read-only file system''), f))\<rparr>"

definition mem_build :: "(nat option, unit, nat, nat) Build" where
  "mem_build = \<lparr>IsEmpty = (\<lambda>st. Validators st = None), BlockProtocol = 11, TMVersion = ''0.35''\<rparr>"

text \<open>
  The scenario of the specification: the state store is at height 100 and so is
  the block store; block metas exist at heights 99 and 100, a validator set at
  99 and consensus parameters at 100.
\<close>

definition block99 :: "(nat, nat) BlockMeta" where
  "block99 = \<lparr>BlockID = 9900,
     Header = \<lparr>Header_Height = 99, Header_Time = 1099,
                Header_AppHash = Some [0x98], Header_LastResultsHash = Some [0x18]\<rparr>\<rparr>"

definition block100 :: "(nat, nat) BlockMeta" where
  "block100 = \<lparr>BlockID = 10000,
     Header = \<lparr>Header_Height = 100, Header_Time = 1100,
                Header_AppHash = Some [0x99], Header_LastResultsHash = Some [0x19]\<rparr>\<rparr>"

definition block101 :: "(nat, nat) BlockMeta" where
  "block101 = \<lparr>BlockID = 10100,
     Header = \<lparr>Header_Height = 101, Header_Time = 1101,
                Header_AppHash = Some [0x9A], Header_LastResultsHash = Some [0x1A]\<rparr>\<rparr>"

definition params100 :: "unit ConsensusParams" where
  "params100 = \<lparr>Params_Version = \<lparr>AppVersion = 7\<rparr>, Params_rest = ()\<rparr>"

definition state100 :: mem_state where
  "state100 = \<lparr>
     Version = \<lparr>Consensus = \<lparr>Block = 11, App = 8\<rparr>, Software = ''0.35''\<rparr>,
     ChainID = ''sei-test'',
     InitialHeight = 1,
     LastBlockHeight = 100,
     LastBlockID = 10000,
     LastBlockTime = 1100,
     LastResultsHash = Some [0x1A],
     AppHash = Some [0x9A],
     NextValidators = Some 102,
     Validators = Some 101,
     LastValidators = Some 100,
     LastHeightValidatorsChanged = 101,
     ConsensusParams = \<lparr>Params_Version = \<lparr>AppVersion = 8\<rparr>, Params_rest = ()\<rparr>,
     LastHeightConsensusParamsChanged = 42 \<rparr>"

definition store100 :: mem_store where
  "store100 = \<lparr>current = Some state100, validators = [(99, Some 99)], params = [(100, params100)]\<rparr>"

type_synonym mem_world = "((int64 \<times> (nat, nat) BlockMeta) list, mem_store, checkpoint, mem_state) world"

definition world100 :: mem_world where
  "world100 = \<lparr>bstore = [(100, block100), (99, block99)], sstore = store100,
     pvfiles = (100, 0, 3), calls = []\<rparr>"

text \<open>The same node stopped after block 101 was stored and before the state was.\<close>

definition world101 :: mem_world where
  "world101 = world100\<lparr>bstore := [(101, block101), (100, block100), (99, block99)]\<rparr>"

text \<open>The same node with a hole in its block store: the newest block is 103.\<close>

definition world103 :: mem_world where
  "world103 = world100\<lparr>bstore := [(103, block101), (100, block100), (99, block99)]\<rparr>"

text \<open>
  A block store whose entry for height 99 holds a meta that records height 42.
\<close>

definition block99_as42 :: "(nat, nat) BlockMeta" where
  "block99_as42 = \<lparr>BlockID = 9900,
     Header = \<lparr>Header_Height = 42, Header_Time = 1099,
                Header_AppHash = Some [0x98], Header_LastResultsHash = Some [0x18]\<rparr>\<rparr>"

definition world100_as42 :: mem_world where
  "world100_as42 = world100\<lparr>bstore := [(100, block100), (99, block99_as42)]\<rparr>"

section \<open>Properties\<close>

lemmas mem_defs =
  mem_bs_def mem_ss_def mem_pv_def readonly_pv_def mem_build_def block99_def block100_def
  block101_def params100_def state100_def store100_def world100_def world101_def world103_def
  block99_as42_def world100_as42_def

lemma called_simps [simp]:
  "bstore (called c w) = bstore w"
  "sstore (called c w) = sstore w"
  "pvfiles (called c w) = pvfiles w"
  "calls (called c w) = calls w @ [c]"
  by (simp_all add: called_def)

lemma new_calls_upd [simp]: "new_calls w (w'\<lparr>calls := calls w @ cs\<rparr>) = cs"
  by (simp add: new_calls_def)

lemma sint_succ_le: "sint (x + 1 :: 64 word) \<le> sint x + 1"
proof -
  have "- (2 ^ 63) \<le> sint x" using sint_ge [of x] by simp
  then have "- (2 ^ 63) \<le> sint x + 1" by simp
  then have "signed_take_bit 63 (sint x + 1) \<le> sint x + 1"
    by (simp only: signed_take_bit_int_less_eq_self_iff)
  then show ?thesis by (simp add: sint_word_ariths)
qed

subsection \<open>The pending-block case\<close>

text \<open>
  When the block store is one block ahead of the loaded state, \<open>Rollback\<close> reads
  the state and the height, deletes the latest block if asked to, and returns.
\<close>

lemma Rollback_pending:
  assumes "Load ss (sstore w) = Inr S" and "\<not> IsEmpty build S"
    and "Height bs (bstore w) = LastBlockHeight S + 1"
  shows "Rollback build pv bs ss removeBlock cfg w =
     (if removeBlock then
        (case fst (DeleteLatestBlock bs (bstore w)) of
           None \<Rightarrow> Returns (LastBlockHeight S) (AppHash S) None
         | Some e \<Rightarrow> Returns (- 1) None (Some (RemoveFinalBlockFailed e)),
         w\<lparr>bstore := snd (DeleteLatestBlock bs (bstore w)),
           calls := calls w @ [CallLoad, CallHeight, CallDeleteLatestBlock]\<rparr>)
      else (Returns (LastBlockHeight S) (AppHash S) None, w\<lparr>calls := calls w @ [CallLoad, CallHeight]\<rparr>))"
  using assms by (simp add: Rollback_def Let_def called_def split: prod.splits option.splits)

lemma world101_loaded:
  "Load mem_ss (sstore world101) = Inr state100"
  "\<not> IsEmpty mem_build state100"
  "Height mem_bs (bstore world101) = LastBlockHeight state100 + 1"
  by (simp_all add: mem_defs)

text \<open>
  C2.  For a loaded, non-empty state \<open>S\<close> and a block store at height
  \<open>LastBlockHeight S + 1\<close>: the state store and the validator files are left as
  they were and nothing is saved.  With \<open>removeBlock = false\<close> the run returns
  \<open>(LastBlockHeight S, AppHash S, nil)\<close> and the world is unchanged but for the
  two reads recorded.  With \<open>removeBlock = true\<close> the calls are \<open>Load\<close>,
  \<open>Height\<close> and one \<open>DeleteLatestBlock\<close>, the block store is what that one
  deletion left, and when the deletion reports no error the run returns the
  same \<open>(LastBlockHeight S, AppHash S, nil)\<close>.
\<close>

theorem Rollback_pending_block:
  assumes "Load ss (sstore w) = Inr S" and "\<not> IsEmpty build S"
    and "Height bs (bstore w) = LastBlockHeight S + 1"
  shows "sstore (snd (Rollback build pv bs ss removeBlock cfg w)) = sstore w
    \<and> pvfiles (snd (Rollback build pv bs ss removeBlock cfg w)) = pvfiles w
    \<and> saved_states (new_calls w (snd (Rollback build pv bs ss removeBlock cfg w))) = []
    \<and> (\<not> removeBlock \<longrightarrow>
         Rollback build pv bs ss removeBlock cfg w =
           (Returns (LastBlockHeight S) (AppHash S) None, w\<lparr>calls := calls w @ [CallLoad, CallHeight]\<rparr>))
    \<and> (removeBlock \<longrightarrow>
         new_calls w (snd (Rollback build pv bs ss removeBlock cfg w)) =
           [CallLoad, CallHeight, CallDeleteLatestBlock]
         \<and> bstore (snd (Rollback build pv bs ss removeBlock cfg w)) = snd (DeleteLatestBlock bs (bstore w))
         \<and> (fst (DeleteLatestBlock bs (bstore w)) = None \<longrightarrow>
              fst (Rollback build pv bs ss removeBlock cfg w) =
                Returns (LastBlockHeight S) (AppHash S) None))"
  by (simp add: Rollback_pending [OF assms])

theorem Rollback_pending_block_witness:
  "Rollback mem_build mem_pv mem_bs mem_ss False None world101 =
     (Returns 100 (Some [0x9A]) None, world101\<lparr>calls := [CallLoad, CallHeight]\<rparr>)
   \<and> new_calls world101 (snd (Rollback mem_build mem_pv mem_bs mem_ss True None world101)) =
        [CallLoad, CallHeight, CallDeleteLatestBlock]
   \<and> bstore (snd (Rollback mem_build mem_pv mem_bs mem_ss True None world101)) =
        [(100, block100), (99, block99)]
   \<and> sstore (snd (Rollback mem_build mem_pv mem_bs mem_ss True None world101)) = store100
   \<and> fst (Rollback mem_build mem_pv mem_bs mem_ss True None world101) = Returns 100 (Some [0x9A]) None"
  using Rollback_pending_block [OF world101_loaded, of mem_pv False None]
    Rollback_pending_block [OF world101_loaded, of mem_pv True None]
  by (simp add: mem_defs)

text \<open>
  C8.  In the pending-block case with \<open>removeBlock = false\<close>, running \<open>Rollback\<close>
  again on the world the first run left gives the same three results,
  \<open>(LastBlockHeight S, AppHash S, nil)\<close>, and the first run changed none of the
  three stores.
\<close>

theorem Rollback_pending_idempotent:
  assumes "Load ss (sstore w) = Inr S" and "\<not> IsEmpty build S"
    and "Height bs (bstore w) = LastBlockHeight S + 1"
  shows "fst (Rollback build pv bs ss False cfg (snd (Rollback build pv bs ss False cfg w)))
           = fst (Rollback build pv bs ss False cfg w)
       \<and> fst (Rollback build pv bs ss False cfg w) = Returns (LastBlockHeight S) (AppHash S) None
       \<and> bstore (snd (Rollback build pv bs ss False cfg w)) = bstore w
       \<and> sstore (snd (Rollback build pv bs ss False cfg w)) = sstore w
       \<and> pvfiles (snd (Rollback build pv bs ss False cfg w)) = pvfiles w"
proof -
  let ?w1 = "w\<lparr>calls := calls w @ [CallLoad, CallHeight]\<rparr>"
  have first: "Rollback build pv bs ss False cfg w = (Returns (LastBlockHeight S) (AppHash S) None, ?w1)"
    using Rollback_pending [OF assms, of pv False cfg] by simp
  have "Load ss (sstore ?w1) = Inr S" and "Height bs (bstore ?w1) = LastBlockHeight S + 1"
    using assms by simp_all
  from Rollback_pending [OF this(1) assms(2) this(2), of pv False cfg]
  have "fst (Rollback build pv bs ss False cfg ?w1) = Returns (LastBlockHeight S) (AppHash S) None"
    by simp
  with first show ?thesis by simp
qed

theorem Rollback_pending_idempotent_witness:
  "fst (Rollback mem_build mem_pv mem_bs mem_ss False None
          (snd (Rollback mem_build mem_pv mem_bs mem_ss False None world101)))
     = fst (Rollback mem_build mem_pv mem_bs mem_ss False None world101)
   \<and> fst (Rollback mem_build mem_pv mem_bs mem_ss False None world101) = Returns 100 (Some [0x9A]) None"
  using Rollback_pending_idempotent [OF world101_loaded, of mem_pv None]
  by (simp add: mem_defs)

subsection \<open>The invariant violation\<close>

lemma world103_loaded:
  "Load mem_ss (sstore world103) = Inr state100"
  "\<not> IsEmpty mem_build state100"
  "Height mem_bs (bstore world103) \<noteq> LastBlockHeight state100"
  "Height mem_bs (bstore world103) \<noteq> LastBlockHeight state100 + 1"
  by (simp_all add: mem_defs)

text \<open>
  C3.  For a loaded, non-empty state \<open>S\<close> and a block store whose height is
  neither \<open>LastBlockHeight S\<close> nor \<open>LastBlockHeight S + 1\<close>, \<open>Rollback\<close> returns
  \<open>-1\<close>, a nil hash and the error that reports the state store's height and the
  block store's height; the world is unchanged but for the two reads recorded.
\<close>

theorem Rollback_invariant_violation:
  assumes "Load ss (sstore w) = Inr S" and "\<not> IsEmpty build S"
    and "Height bs (bstore w) \<noteq> LastBlockHeight S"
    and "Height bs (bstore w) \<noteq> LastBlockHeight S + 1"
  shows "Rollback build pv bs ss removeBlock cfg w =
           (Returns (- 1) None (Some (HeightMismatch (LastBlockHeight S) (Height bs (bstore w)))),
            w\<lparr>calls := calls w @ [CallLoad, CallHeight]\<rparr>)"
  using assms by (simp add: Rollback_def Let_def called_def)

theorem Rollback_invariant_violation_witness:
  "Rollback mem_build mem_pv mem_bs mem_ss True None world103 =
     (Returns (- 1) None (Some (HeightMismatch 100 103)), world103\<lparr>calls := [CallLoad, CallHeight]\<rparr>)"
  using Rollback_invariant_violation [OF world103_loaded, of mem_pv True None]
  by (simp add: mem_defs)

subsection \<open>The rollback case\<close>

text \<open>
  When the block store is at the height of the loaded state and the two block
  metas, the validator set and the consensus parameters are found, \<open>Rollback\<close>
  builds the rolled back state and saves it; what it does next depends on what
  \<open>Save\<close>, \<open>DeleteLatestBlock\<close> and the reset of the signing checkpoint report.
\<close>

lemma buildRolledBackState_simps [simp]:
  "ChainID (buildRolledBackState build S rb lb vs ps rm) = ChainID S"
  "InitialHeight (buildRolledBackState build S rb lb vs ps rm) = InitialHeight S"
  "LastBlockHeight (buildRolledBackState build S rb lb vs ps rm) = Header_Height (Header rb)"
  "LastBlockID (buildRolledBackState build S rb lb vs ps rm) = BlockID rb"
  "LastBlockTime (buildRolledBackState build S rb lb vs ps rm) = Header_Time (Header rb)"
  "NextValidators (buildRolledBackState build S rb lb vs ps rm) = Validators S"
  "Validators (buildRolledBackState build S rb lb vs ps rm) = LastValidators S"
  "LastValidators (buildRolledBackState build S rb lb vs ps rm) = vs"
  "ConsensusParams (buildRolledBackState build S rb lb vs ps rm) = ps"
  "Version (buildRolledBackState build S rb lb vs ps rm) =
     \<lparr>Consensus = \<lparr>Block = BlockProtocol build, App = AppVersion (Params_Version ps)\<rparr>,
      Software = TMVersion build\<rparr>"
  "AppHash (buildRolledBackState build S rb lb vs ps rm) =
     (if rm then Header_LastResultsHash (Header rb) else Header_AppHash (Header lb))"
  "LastResultsHash (buildRolledBackState build S rb lb vs ps rm) =
     (if rm then Header_AppHash (Header rb) else Header_LastResultsHash (Header lb))"
  "LastHeightValidatorsChanged (buildRolledBackState build S rb lb vs ps rm) =
     (if sint (LastBlockHeight S - 1) < sint (LastHeightValidatorsChanged S)
      then LastBlockHeight S - 1 + 1 else LastHeightValidatorsChanged S)"
  "LastHeightConsensusParamsChanged (buildRolledBackState build S rb lb vs ps rm) =
     (if sint (LastBlockHeight S - 1) < sint (LastHeightConsensusParamsChanged S)
      then LastBlockHeight S - 1 + 1 else LastHeightConsensusParamsChanged S)"
  by (simp_all add: buildRolledBackState_def Let_def)

lemma reset_new_calls:
  "new_calls w (snd (resetPrivValidatorConfig pv c w)) =
     CallLoadFilePV (KeyFile pv c) (StateFile pv c) #
       (case LoadFilePV pv (pvfiles w) (KeyFile pv c) (StateFile pv c) of
          Inl e \<Rightarrow> [] | Inr h \<Rightarrow> [CallReset])"
  by (simp add: resetPrivValidatorConfig_def Let_def called_def case_prod_beta new_calls_def
      split: sum.split option.split)

lemma Rollback_rollback:
  assumes "Load ss (sstore w) = Inr S" and "\<not> IsEmpty build S"
    and "Height bs (bstore w) = LastBlockHeight S"
    and "LoadBlockMeta bs (bstore w) (LastBlockHeight S - 1) = Some rollbackBlock"
    and "LoadBlockMeta bs (bstore w) (LastBlockHeight S) = Some latestBlock"
    and "LoadValidators ss (sstore w) (LastBlockHeight S - 1) = Inr prevValidators"
    and "LoadConsensusParams ss (sstore w) (LastBlockHeight S - 1 + 1) = Inr prevParams"
    and "st = buildRolledBackState build S rollbackBlock latestBlock prevValidators prevParams removeBlock"
    and "r = Rollback build pv bs ss removeBlock cfg w"
  shows "fst r =
     (case fst (Save ss (sstore w) st) of
        Some e \<Rightarrow> Returns (- 1) None (Some (SaveRolledBackFailed e))
      | None \<Rightarrow>
        if removeBlock then
          (case fst (DeleteLatestBlock bs (bstore w)) of
             Some e \<Rightarrow> Returns (- 1) None (Some (RemoveFinalBlockFailed e))
           | None \<Rightarrow>
             (case cfg of
                None \<Rightarrow> Panics
              | Some c \<Rightarrow>
                (case fst (resetPrivValidatorConfig pv c w) of
                   Some e \<Rightarrow> Returns (- 1) None (Some e)
                 | None \<Rightarrow> Returns (LastBlockHeight st) (AppHash st) None)))
        else Returns (LastBlockHeight st) (AppHash st) None)"
    and "new_calls w (snd r) =
      [CallLoad, CallHeight, CallLoadBlockMeta (LastBlockHeight S - 1),
       CallLoadBlockMeta (LastBlockHeight S), CallLoadValidators (LastBlockHeight S - 1),
       CallLoadConsensusParams (LastBlockHeight S - 1 + 1), CallSave st] @
      (if fst (Save ss (sstore w) st) = None \<and> removeBlock then
         CallDeleteLatestBlock #
           (if fst (DeleteLatestBlock bs (bstore w)) = None then
              (case cfg of None \<Rightarrow> [] | Some c \<Rightarrow> new_calls w (snd (resetPrivValidatorConfig pv c w)))
            else [])
       else [])"
    and "sstore (snd r) = snd (Save ss (sstore w) st)"
    and "bstore (snd r) =
      (if fst (Save ss (sstore w) st) = None \<and> removeBlock
       then snd (DeleteLatestBlock bs (bstore w)) else bstore w)"
    and "pvfiles (snd r) =
      (if fst (Save ss (sstore w) st) = None \<and> removeBlock \<and> fst (DeleteLatestBlock bs (bstore w)) = None
       then (case cfg of None \<Rightarrow> pvfiles w | Some c \<Rightarrow> pvfiles (snd (resetPrivValidatorConfig pv c w)))
       else pvfiles w)"
  unfolding assms(8,9) Rollback_def
  using assms(1-7)
  by (simp_all add: Let_def called_def case_prod_beta resetPrivValidatorConfig_def new_calls_def
      split: option.split sum.split)

lemma Rollback_saved:
  assumes "Load ss (sstore w) = Inr S" and "\<not> IsEmpty build S"
    and "Height bs (bstore w) = LastBlockHeight S"
    and "LoadBlockMeta bs (bstore w) (LastBlockHeight S - 1) = Some rollbackBlock"
    and "LoadBlockMeta bs (bstore w) (LastBlockHeight S) = Some latestBlock"
    and "LoadValidators ss (sstore w) (LastBlockHeight S - 1) = Inr prevValidators"
    and "LoadConsensusParams ss (sstore w) (LastBlockHeight S - 1 + 1) = Inr prevParams"
  shows "saved_states (new_calls w (snd (Rollback build pv bs ss removeBlock cfg w))) =
     [buildRolledBackState build S rollbackBlock latestBlock prevValidators prevParams removeBlock]"
  by (simp add: Rollback_rollback(2) [OF assms refl refl] reset_new_calls split: option.split sum.split)

lemma world100_loaded:
  "Load mem_ss (sstore world100) = Inr state100"
  "\<not> IsEmpty mem_build state100"
  "Height mem_bs (bstore world100) = LastBlockHeight state100"
  "LoadBlockMeta mem_bs (bstore world100) (LastBlockHeight state100 - 1) = Some block99"
  "LoadBlockMeta mem_bs (bstore world100) (LastBlockHeight state100) = Some block100"
  "LoadValidators mem_ss (sstore world100) (LastBlockHeight state100 - 1) = Inr (Some 99)"
  "LoadConsensusParams mem_ss (sstore world100) (LastBlockHeight state100 - 1 + 1) = Inr params100"
  by (simp_all add: mem_defs)

text \<open>
  C6.  In the rollback case exactly one state is saved.  Its \<open>ChainID\<close> and
  \<open>InitialHeight\<close> are those of the loaded state \<open>S\<close>; its \<open>LastBlockHeight\<close>,
  \<open>LastBlockID\<close> and \<open>LastBlockTime\<close> are the height, block id and time of the
  block meta loaded at \<open>R = LastBlockHeight S - 1\<close>; its \<open>NextValidators\<close> are
  \<open>S\<close>'s \<open>Validators\<close>, its \<open>Validators\<close> are \<open>S\<close>'s \<open>LastValidators\<close> and its
  \<open>LastValidators\<close> are the validator set loaded at \<open>R\<close>; its \<open>ConsensusParams\<close>
  are the parameters loaded at \<open>R + 1\<close>, whose \<open>AppVersion\<close> is the application
  component of its version.
\<close>

theorem Rollback_reconstructed_state:
  assumes "Load ss (sstore w) = Inr S" and "\<not> IsEmpty build S"
    and "Height bs (bstore w) = LastBlockHeight S"
    and "LoadBlockMeta bs (bstore w) (LastBlockHeight S - 1) = Some rollbackBlock"
    and "LoadBlockMeta bs (bstore w) (LastBlockHeight S) = Some latestBlock"
    and "LoadValidators ss (sstore w) (LastBlockHeight S - 1) = Inr prevValidators"
    and "LoadConsensusParams ss (sstore w) (LastBlockHeight S - 1 + 1) = Inr prevParams"
  shows "\<exists>st. saved_states (new_calls w (snd (Rollback build pv bs ss removeBlock cfg w))) = [st]
    \<and> ChainID st = ChainID S \<and> InitialHeight st = InitialHeight S
    \<and> LastBlockHeight st = Header_Height (Header rollbackBlock)
    \<and> LastBlockID st = BlockID rollbackBlock
    \<and> LastBlockTime st = Header_Time (Header rollbackBlock)
    \<and> NextValidators st = Validators S \<and> Validators st = LastValidators S
    \<and> LastValidators st = prevValidators
    \<and> ConsensusParams st = prevParams
    \<and> App (Consensus (Version st)) = AppVersion (Params_Version prevParams)"
  by (simp add: Rollback_saved [OF assms])

theorem Rollback_reconstructed_state_witness:
  "\<exists>st. saved_states (new_calls world100
           (snd (Rollback mem_build mem_pv mem_bs mem_ss True (Some ''/home'') world100))) = [st]
    \<and> ChainID st = ''sei-test'' \<and> InitialHeight st = 1
    \<and> LastBlockHeight st = 99
    \<and> LastBlockID st = 9900
    \<and> LastBlockTime st = 1099
    \<and> NextValidators st = Some 101 \<and> Validators st = Some 100
    \<and> LastValidators st = Some 99
    \<and> ConsensusParams st = params100
    \<and> App (Consensus (Version st)) = 7"
  using Rollback_reconstructed_state [OF world100_loaded, of mem_pv True "Some ''/home''"]
  by (simp add: state100_def block99_def params100_def)

text \<open>
  C4.  In the rollback case, when the block meta loaded at
  \<open>LastBlockHeight S - 1\<close> records that height and \<open>Rollback\<close> returns without
  error, the height it returns is \<open>LastBlockHeight S - 1\<close>.
\<close>

theorem Rollback_returned_height:
  assumes "Load ss (sstore w) = Inr S" and "\<not> IsEmpty build S"
    and "Height bs (bstore w) = LastBlockHeight S"
    and "LoadBlockMeta bs (bstore w) (LastBlockHeight S - 1) = Some rollbackBlock"
    and "Header_Height (Header rollbackBlock) = LastBlockHeight S - 1"
    and "fst (Rollback build pv bs ss removeBlock cfg w) = Returns h a None"
  shows "h = LastBlockHeight S - 1"
  using assms
  by (auto simp: Rollback_def Let_def called_def case_prod_beta
      split: option.splits sum.splits if_splits)

lemma world100_returns:
  "fst (Rollback mem_build mem_pv mem_bs mem_ss True (Some ''/home'') world100) = Returns 99 (Some [0x18]) None"
  by (simp add: Rollback_rollback(1) [OF world100_loaded refl refl])
     (simp add: mem_defs resetPrivValidatorConfig_def Let_def called_def)

theorem Rollback_returned_height_witness:
  "fst (Rollback mem_build mem_pv mem_bs mem_ss True (Some ''/home'') world100) = Returns 99 (Some [0x18]) None
   \<and> Header_Height (Header block99) = LastBlockHeight state100 - 1
   \<and> (99 :: int64) = LastBlockHeight state100 - 1"
  using Rollback_returned_height [OF world100_loaded(1-4) _ world100_returns]
  by (simp add: world100_returns state100_def block99_def)

lemma mem_ss_Save_ok: "fst (Save mem_ss s st) = None"
  by (simp add: mem_ss_def)

text \<open>
  C1, as amended.  In the rollback case with \<open>removeBlock = false\<close>, the one
  state that is saved has the \<open>AppHash\<close> of the block meta loaded at
  \<open>LastBlockHeight S\<close> as its \<open>AppHash\<close> and that meta's \<open>LastResultsHash\<close> as
  its \<open>LastResultsHash\<close>; and when \<open>Save\<close> reports no error, the hash that
  \<open>Rollback\<close> returns is that \<open>AppHash\<close>.
\<close>

theorem Rollback_keep_block_hashes:
  assumes "Load ss (sstore w) = Inr S" and "\<not> IsEmpty build S"
    and "Height bs (bstore w) = LastBlockHeight S"
    and "LoadBlockMeta bs (bstore w) (LastBlockHeight S - 1) = Some rollbackBlock"
    and "LoadBlockMeta bs (bstore w) (LastBlockHeight S) = Some latestBlock"
    and "LoadValidators ss (sstore w) (LastBlockHeight S - 1) = Inr prevValidators"
    and "LoadConsensusParams ss (sstore w) (LastBlockHeight S - 1 + 1) = Inr prevParams"
  shows "\<exists>st. saved_states (new_calls w (snd (Rollback build pv bs ss False cfg w))) = [st]
    \<and> AppHash st = Header_AppHash (Header latestBlock)
    \<and> LastResultsHash st = Header_LastResultsHash (Header latestBlock)
    \<and> (fst (Save ss (sstore w) st) = None \<longrightarrow>
         fst (Rollback build pv bs ss False cfg w) =
           Returns (LastBlockHeight st) (Header_AppHash (Header latestBlock)) None)"
  by (simp add: Rollback_saved [OF assms] Rollback_rollback(1) [OF assms refl refl])

theorem Rollback_keep_block_hashes_witness:
  "\<exists>st. saved_states (new_calls world100 (snd (Rollback mem_build mem_pv mem_bs mem_ss False None world100))) = [st]
    \<and> AppHash st = Some [0x99]
    \<and> LastResultsHash st = Some [0x19]
    \<and> fst (Save mem_ss (sstore world100) st) = None
    \<and> fst (Rollback mem_build mem_pv mem_bs mem_ss False None world100) =
        Returns (LastBlockHeight st) (Some [0x99]) None"
  using Rollback_keep_block_hashes [OF world100_loaded, of mem_pv None]
  by (simp add: block100_def mem_ss_Save_ok)

text \<open>
  C1 as stated fails: in the scenario at height 100 with \<open>removeBlock = false\<close>,
  the block meta at height 100 has \<open>LastResultsHash = [0x19]\<close>, and the
  \<open>AppHash\<close> saved and returned is \<open>[0x99]\<close>, that meta's \<open>AppHash\<close>.
\<close>

theorem Rollback_hash_selection_counterexample:
  "LoadBlockMeta mem_bs (bstore world100) (LastBlockHeight state100) = Some block100
   \<and> Header_LastResultsHash (Header block100) = Some [0x19]
   \<and> map AppHash (saved_states (new_calls world100
        (snd (Rollback mem_build mem_pv mem_bs mem_ss False None world100)))) = [Some [0x99]]
   \<and> fst (Rollback mem_build mem_pv mem_bs mem_ss False None world100) = Returns 99 (Some [0x99]) None
   \<and> map AppHash (saved_states (new_calls world100
        (snd (Rollback mem_build mem_pv mem_bs mem_ss False None world100))))
      \<noteq> [Header_LastResultsHash (Header block100)]"
  by (simp add: Rollback_def Let_def called_def new_calls_def buildRolledBackState_def mem_defs)

text \<open>
  C5, as amended.  In the rollback case, with \<open>R = LastBlockHeight S - 1\<close>, the
  one state that is saved has \<open>LastHeightValidatorsChanged = R + 1\<close> if
  \<open>S\<close>'s is greater than \<open>R\<close> and \<open>S\<close>'s own otherwise, and the same rule gives
  its \<open>LastHeightConsensusParamsChanged\<close>.  Provided the block meta loaded at \<open>R\<close>
  records the height \<open>R\<close>, both are at most the saved \<open>LastBlockHeight\<close> plus
  one (the sum taken over the integers), whatever they were in \<open>S\<close>.
\<close>

theorem Rollback_change_heights:
  assumes "Load ss (sstore w) = Inr S" and "\<not> IsEmpty build S"
    and "Height bs (bstore w) = LastBlockHeight S"
    and "LoadBlockMeta bs (bstore w) (LastBlockHeight S - 1) = Some rollbackBlock"
    and "LoadBlockMeta bs (bstore w) (LastBlockHeight S) = Some latestBlock"
    and "LoadValidators ss (sstore w) (LastBlockHeight S - 1) = Inr prevValidators"
    and "LoadConsensusParams ss (sstore w) (LastBlockHeight S - 1 + 1) = Inr prevParams"
  shows "\<exists>st. saved_states (new_calls w (snd (Rollback build pv bs ss removeBlock cfg w))) = [st]
    \<and> LastHeightValidatorsChanged st =
         (if sint (LastBlockHeight S - 1) < sint (LastHeightValidatorsChanged S)
          then LastBlockHeight S - 1 + 1 else LastHeightValidatorsChanged S)
    \<and> LastHeightConsensusParamsChanged st =
         (if sint (LastBlockHeight S - 1) < sint (LastHeightConsensusParamsChanged S)
          then LastBlockHeight S - 1 + 1 else LastHeightConsensusParamsChanged S)
    \<and> (Header_Height (Header rollbackBlock) = LastBlockHeight S - 1 \<longrightarrow>
         sint (LastHeightValidatorsChanged st) \<le> sint (LastBlockHeight st) + 1
         \<and> sint (LastHeightConsensusParamsChanged st) \<le> sint (LastBlockHeight st) + 1)"
proof -
  let ?R = "LastBlockHeight S - 1"
  have clamp: "sint (if sint ?R < sint v then ?R + 1 else v) \<le> sint ?R + 1" for v
    using sint_succ_le [of ?R] by (simp del: diff_add_cancel)
  show ?thesis
    using clamp [of "LastHeightValidatorsChanged S"] clamp [of "LastHeightConsensusParamsChanged S"]
    by (simp add: Rollback_saved [OF assms] del: diff_add_cancel)
qed

theorem Rollback_change_heights_witness:
  "Header_Height (Header block99) = LastBlockHeight state100 - 1
   \<and> (\<exists>st. saved_states (new_calls world100
           (snd (Rollback mem_build mem_pv mem_bs mem_ss False None world100))) = [st]
    \<and> LastHeightValidatorsChanged st = 100
    \<and> LastHeightConsensusParamsChanged st = 42
    \<and> sint (LastHeightValidatorsChanged st) \<le> sint (LastBlockHeight st) + 1
    \<and> sint (LastHeightConsensusParamsChanged st) \<le> sint (LastBlockHeight st) + 1)"
  using Rollback_change_heights [OF world100_loaded, of mem_pv False None]
  by (simp add: state100_def block99_def) 

lemma world100_as42_loaded:
  "Load mem_ss (sstore world100_as42) = Inr state100"
  "\<not> IsEmpty mem_build state100"
  "Height mem_bs (bstore world100_as42) = LastBlockHeight state100"
  "LoadBlockMeta mem_bs (bstore world100_as42) (LastBlockHeight state100 - 1) = Some block99_as42"
  "LoadBlockMeta mem_bs (bstore world100_as42) (LastBlockHeight state100) = Some block100"
  "LoadValidators mem_ss (sstore world100_as42) (LastBlockHeight state100 - 1) = Inr (Some 99)"
  "LoadConsensusParams mem_ss (sstore world100_as42) (LastBlockHeight state100 - 1 + 1) = Inr params100"
  by (simp_all add: mem_defs)

text \<open>
  C5 as stated fails where the block meta loaded at \<open>R\<close> records another
  height: the state at height 100 satisfies both bounds, the meta found at 99
  records height 42, and the saved state has
  \<open>LastHeightValidatorsChanged = 100\<close> and \<open>LastBlockHeight = 42\<close>.
\<close>

theorem Rollback_change_heights_counterexample:
  "Load mem_ss (sstore world100_as42) = Inr state100
   \<and> Height mem_bs (bstore world100_as42) = LastBlockHeight state100
   \<and> sint (LastHeightValidatorsChanged state100) \<le> sint (LastBlockHeight state100) + 1
   \<and> sint (LastHeightConsensusParamsChanged state100) \<le> sint (LastBlockHeight state100) + 1
   \<and> map LastHeightValidatorsChanged (saved_states (new_calls world100_as42
        (snd (Rollback mem_build mem_pv mem_bs mem_ss False None world100_as42)))) = [100]
   \<and> map LastBlockHeight (saved_states (new_calls world100_as42
        (snd (Rollback mem_build mem_pv mem_bs mem_ss False None world100_as42)))) = [42]
   \<and> \<not> sint (100 :: int64) \<le> sint (42 :: int64) + 1"
  by (simp add: Rollback_saved [OF world100_as42_loaded] world100_as42_loaded)
     (simp add: state100_def block99_as42_def)

text \<open>
  C7.  In the rollback case with \<open>removeBlock = true\<close> and a validator
  configuration given, when the state handed to \<open>Save\<close> is saved without error
  and \<open>DeleteLatestBlock\<close> reports no error but \<open>resetPrivValidatorConfig\<close>
  reports error \<open>e\<close>, \<open>Rollback\<close> returns \<open>(-1, nil, e)\<close>.
\<close>

theorem Rollback_reset_failure_reported:
  assumes "Load ss (sstore w) = Inr S" and "\<not> IsEmpty build S"
    and "Height bs (bstore w) = LastBlockHeight S"
    and "LoadBlockMeta bs (bstore w) (LastBlockHeight S - 1) = Some rollbackBlock"
    and "LoadBlockMeta bs (bstore w) (LastBlockHeight S) = Some latestBlock"
    and "LoadValidators ss (sstore w) (LastBlockHeight S - 1) = Inr prevValidators"
    and "LoadConsensusParams ss (sstore w) (LastBlockHeight S - 1 + 1) = Inr prevParams"
    and "saved_states (new_calls w (snd (Rollback build pv bs ss True (Some c) w))) = [st]"
    and "fst (Save ss (sstore w) st) = None"
    and "fst (DeleteLatestBlock bs (bstore w)) = None"
    and "fst (resetPrivValidatorConfig pv c w) = Some e"
  shows "fst (Rollback build pv bs ss True (Some c) w) = Returns (- 1) None (Some e)"
proof -
  have st: "st = buildRolledBackState build S rollbackBlock latestBlock prevValidators prevParams True"
    using assms(8) by (simp add: Rollback_saved [OF assms(1-7)])
  show ?thesis
    using assms(9-11) by (simp add: Rollback_rollback(1) [OF assms(1-7) st refl])
qed

lemma mem_bs_delete_world100: "fst (DeleteLatestBlock mem_bs (bstore world100)) = None"
  by (simp add: mem_bs_def world100_def)

lemma readonly_reset_fails:
  "fst (resetPrivValidatorConfig readonly_pv ''/home'' w) =
     Some (ResetPrivValFailed (ErrorsNew ''read-only file system''))"
  by (simp add: resetPrivValidatorConfig_def readonly_pv_def mem_pv_def Let_def)

theorem Rollback_reset_failure_reported_witness:
  "fst (Rollback mem_build readonly_pv mem_bs mem_ss True (Some ''/home'') world100) =
     Returns (- 1) None (Some (ResetPrivValFailed (ErrorsNew ''read-only file system'')))"
  using Rollback_reset_failure_reported [OF world100_loaded
      Rollback_saved [OF world100_loaded] mem_ss_Save_ok mem_bs_delete_world100 readonly_reset_fails]
  by simp

subsection \<open>The validator configuration and the error returns\<close>

text \<open>
  C10.  With \<open>removeBlock = false\<close> the run does not depend on the
  \<open>privValidatorConfig\<close> pointer (it is the run with a nil pointer) and does
  not panic; and whenever \<open>Rollback\<close> returns an error, the height it returns
  is \<open>-1\<close> and the hash is nil.
\<close>

theorem Rollback_nil_config_and_errors:
  "(Rollback build pv bs ss False cfg w = Rollback build pv bs ss False None w
    \<and> fst (Rollback build pv bs ss False cfg w) \<noteq> Panics)
   \<and> (fst (Rollback build pv bs ss removeBlock cfg w) = Returns h a (Some e) \<longrightarrow> h = - 1 \<and> a = None)"
  by (auto simp: Rollback_def Let_def called_def case_prod_beta
      split: option.splits sum.splits if_splits)

theorem Rollback_nil_config_and_errors_witness:
  "Rollback mem_build mem_pv mem_bs mem_ss False (Some ''/home'') world100 =
     Rollback mem_build mem_pv mem_bs mem_ss False None world100
   \<and> fst (Rollback mem_build mem_pv mem_bs mem_ss False (Some ''/home'') world100) \<noteq> Panics
   \<and> fst (Rollback mem_build mem_pv mem_bs mem_ss True None world103) =
       Returns (- 1) None (Some (HeightMismatch 100 103))"
proof -
  have err: "fst (Rollback mem_build mem_pv mem_bs mem_ss True None world103) =
       Returns (- 1) None (Some (HeightMismatch 100 103))"
    by (simp add: Rollback_def Let_def called_def mem_defs)
  show ?thesis
    using Rollback_nil_config_and_errors [where build = mem_build and pv = mem_pv and bs = mem_bs
        and ss = mem_ss and cfg = "Some ''/home''" and w = world100 and removeBlock = False
        and h = "- 1" and a = None and e = "HeightMismatch 100 103"]
      Rollback_nil_config_and_errors [where build = mem_build and pv = mem_pv and bs = mem_bs
        and ss = mem_ss and cfg = None and w = world103 and removeBlock = True
        and h = "- 1" and a = None and e = "HeightMismatch 100 103"] err
    by blast
qed

lemma Rollback_pv_call_loaded:
  assumes "\<exists>c \<in> set (new_calls w (snd (Rollback build pv bs ss removeBlock cfg w))). is_pv_call c"
  shows "\<exists>S rb lb vs ps. Load ss (sstore w) = Inr S \<and> \<not> IsEmpty build S
    \<and> Height bs (bstore w) = LastBlockHeight S
    \<and> LoadBlockMeta bs (bstore w) (LastBlockHeight S - 1) = Some rb
    \<and> LoadBlockMeta bs (bstore w) (LastBlockHeight S) = Some lb
    \<and> LoadValidators ss (sstore w) (LastBlockHeight S - 1) = Inr vs
    \<and> LoadConsensusParams ss (sstore w) (LastBlockHeight S - 1 + 1) = Inr ps"
  using assms
  by (auto simp: Rollback_def Let_def called_def case_prod_beta new_calls_def
      split: option.splits sum.splits if_splits)

text \<open>
  C9.  In the pending-block case no call loads or resets the validator's
  signing checkpoint and the validator's files are unchanged, whether or not
  the block is removed.  In any run where such a call is made,
  \<open>removeBlock\<close> is true, the block store is at the height of the loaded state,
  a configuration was given, and the calls are the six reads, the \<open>Save\<close> of a
  state for which \<open>Save\<close> reports no error, a \<open>DeleteLatestBlock\<close> that reports
  no error, and then the calls of \<open>resetPrivValidatorConfig\<close>.
\<close>

theorem Rollback_checkpoint_calls:
  "(Load ss (sstore w) = Inr S \<and> \<not> IsEmpty build S \<and> Height bs (bstore w) = LastBlockHeight S + 1 \<longrightarrow>
      (\<forall>c \<in> set (new_calls w (snd (Rollback build pv bs ss removeBlock cfg w))). \<not> is_pv_call c)
      \<and> pvfiles (snd (Rollback build pv bs ss removeBlock cfg w)) = pvfiles w)
   \<and> ((\<exists>c \<in> set (new_calls w (snd (Rollback build pv bs ss removeBlock cfg w))). is_pv_call c) \<longrightarrow>
      removeBlock \<and>
      (\<exists>S' st cf. Load ss (sstore w) = Inr S' \<and> Height bs (bstore w) = LastBlockHeight S'
         \<and> cfg = Some cf
         \<and> fst (Save ss (sstore w) st) = None
         \<and> fst (DeleteLatestBlock bs (bstore w)) = None
         \<and> new_calls w (snd (Rollback build pv bs ss removeBlock cfg w)) =
             [CallLoad, CallHeight, CallLoadBlockMeta (LastBlockHeight S' - 1),
              CallLoadBlockMeta (LastBlockHeight S'), CallLoadValidators (LastBlockHeight S' - 1),
              CallLoadConsensusParams (LastBlockHeight S' - 1 + 1), CallSave st, CallDeleteLatestBlock]
             @ new_calls w (snd (resetPrivValidatorConfig pv cf w))))"
proof (intro conjI impI)
  assume "Load ss (sstore w) = Inr S \<and> \<not> IsEmpty build S \<and> Height bs (bstore w) = LastBlockHeight S + 1"
  then have p: "Load ss (sstore w) = Inr S" "\<not> IsEmpty build S" "Height bs (bstore w) = LastBlockHeight S + 1"
    by simp_all
  show "\<forall>c \<in> set (new_calls w (snd (Rollback build pv bs ss removeBlock cfg w))). \<not> is_pv_call c"
    by (simp add: Rollback_pending [OF p])
  show "pvfiles (snd (Rollback build pv bs ss removeBlock cfg w)) = pvfiles w"
    by (simp add: Rollback_pending [OF p])
next
  let ?r = "Rollback build pv bs ss removeBlock cfg w"
  assume a: "\<exists>c \<in> set (new_calls w (snd ?r)). is_pv_call c"
  from Rollback_pv_call_loaded [OF a]
  obtain S' rb lb vs ps where l: "Load ss (sstore w) = Inr S'" "\<not> IsEmpty build S'"
    "Height bs (bstore w) = LastBlockHeight S'"
    "LoadBlockMeta bs (bstore w) (LastBlockHeight S' - 1) = Some rb"
    "LoadBlockMeta bs (bstore w) (LastBlockHeight S') = Some lb"
    "LoadValidators ss (sstore w) (LastBlockHeight S' - 1) = Inr vs"
    "LoadConsensusParams ss (sstore w) (LastBlockHeight S' - 1 + 1) = Inr ps"
    by blast
  define st where "st = buildRolledBackState build S' rb lb vs ps removeBlock"
  have nc: "new_calls w (snd ?r) =
      [CallLoad, CallHeight, CallLoadBlockMeta (LastBlockHeight S' - 1),
       CallLoadBlockMeta (LastBlockHeight S'), CallLoadValidators (LastBlockHeight S' - 1),
       CallLoadConsensusParams (LastBlockHeight S' - 1 + 1), CallSave st] @
      (if fst (Save ss (sstore w) st) = None \<and> removeBlock then
         CallDeleteLatestBlock #
           (if fst (DeleteLatestBlock bs (bstore w)) = None then
              (case cfg of None \<Rightarrow> [] | Some c \<Rightarrow> new_calls w (snd (resetPrivValidatorConfig pv c w)))
            else [])
       else [])"
    by (rule Rollback_rollback(2) [OF l st_def refl])
  let ?reads = "[CallLoad, CallHeight, CallLoadBlockMeta (LastBlockHeight S' - 1),
       CallLoadBlockMeta (LastBlockHeight S'), CallLoadValidators (LastBlockHeight S' - 1),
       CallLoadConsensusParams (LastBlockHeight S' - 1 + 1), CallSave st]"
  have save_ok: "fst (Save ss (sstore w) st) = None"
  proof (rule ccontr)
    assume n: "fst (Save ss (sstore w) st) \<noteq> None"
    have "new_calls w (snd ?r) = ?reads" unfolding nc using n by auto
    with a show False by simp
  qed
  have remove: removeBlock
  proof (rule ccontr)
    assume n: "\<not> removeBlock"
    have "new_calls w (snd ?r) = ?reads" unfolding nc using n by auto
    with a show False by simp
  qed
  have delete_ok: "fst (DeleteLatestBlock bs (bstore w)) = None"
  proof (rule ccontr)
    assume n: "fst (DeleteLatestBlock bs (bstore w)) \<noteq> None"
    have "new_calls w (snd ?r) = ?reads @ [CallDeleteLatestBlock]"
      unfolding nc using n save_ok remove by auto
    with a show False by simp
  qed
  have "cfg \<noteq> None"
  proof
    assume n: "cfg = None"
    have "new_calls w (snd ?r) = ?reads @ [CallDeleteLatestBlock]"
      unfolding nc using n save_ok remove delete_ok by auto
    with a show False by simp
  qed
  with save_ok remove delete_ok
  have ok: "fst (Save ss (sstore w) st) = None \<and> removeBlock
      \<and> fst (DeleteLatestBlock bs (bstore w)) = None \<and> cfg \<noteq> None"
    by blast
  then obtain cf where cf: "cfg = Some cf" by blast
  show removeBlock using ok by simp
  have "new_calls w (snd ?r) =
             [CallLoad, CallHeight, CallLoadBlockMeta (LastBlockHeight S' - 1),
              CallLoadBlockMeta (LastBlockHeight S'), CallLoadValidators (LastBlockHeight S' - 1),
              CallLoadConsensusParams (LastBlockHeight S' - 1 + 1), CallSave st, CallDeleteLatestBlock]
             @ new_calls w (snd (resetPrivValidatorConfig pv cf w))"
    unfolding nc using ok cf by simp
  with l ok cf show "\<exists>S' st cf. Load ss (sstore w) = Inr S' \<and> Height bs (bstore w) = LastBlockHeight S'
         \<and> cfg = Some cf
         \<and> fst (Save ss (sstore w) st) = None
         \<and> fst (DeleteLatestBlock bs (bstore w)) = None
         \<and> new_calls w (snd ?r) =
             [CallLoad, CallHeight, CallLoadBlockMeta (LastBlockHeight S' - 1),
              CallLoadBlockMeta (LastBlockHeight S'), CallLoadValidators (LastBlockHeight S' - 1),
              CallLoadConsensusParams (LastBlockHeight S' - 1 + 1), CallSave st, CallDeleteLatestBlock]
             @ new_calls w (snd (resetPrivValidatorConfig pv cf w))"
    by blast
qed


theorem Rollback_checkpoint_calls_witness:
  "(filter is_pv_call (new_calls world101
        (snd (Rollback mem_build mem_pv mem_bs mem_ss True (Some ''/home'') world101))) = []
     \<and> pvfiles (snd (Rollback mem_build mem_pv mem_bs mem_ss True (Some ''/home'') world101)) = pvfiles world101)
   \<and> (\<exists>c \<in> set (new_calls world100
        (snd (Rollback mem_build mem_pv mem_bs mem_ss True (Some ''/home'') world100))). is_pv_call c)
   \<and> (\<exists>S' st cf. Load mem_ss (sstore world100) = Inr S'
         \<and> Height mem_bs (bstore world100) = LastBlockHeight S'
         \<and> Some ''/home'' = Some cf
         \<and> fst (Save mem_ss (sstore world100) st) = None
         \<and> fst (DeleteLatestBlock mem_bs (bstore world100)) = None
         \<and> new_calls world100 (snd (Rollback mem_build mem_pv mem_bs mem_ss True (Some ''/home'') world100)) =
             [CallLoad, CallHeight, CallLoadBlockMeta (LastBlockHeight S' - 1),
              CallLoadBlockMeta (LastBlockHeight S'), CallLoadValidators (LastBlockHeight S' - 1),
              CallLoadConsensusParams (LastBlockHeight S' - 1 + 1), CallSave st, CallDeleteLatestBlock]
             @ new_calls world100 (snd (resetPrivValidatorConfig mem_pv cf world100)))"
proof -
  have pvcall: "\<exists>c \<in> set (new_calls world100
        (snd (Rollback mem_build mem_pv mem_bs mem_ss True (Some ''/home'') world100))). is_pv_call c"
    by (simp add: Rollback_rollback(2) [OF world100_loaded refl refl] mem_ss_Save_ok
        mem_bs_delete_world100 reset_new_calls)
  show ?thesis
    using Rollback_checkpoint_calls [where ss = mem_ss and w = world101 and S = state100
        and build = mem_build and bs = mem_bs and pv = mem_pv and removeBlock = True
        and cfg = "Some ''/home''"]
      Rollback_checkpoint_calls [where ss = mem_ss and w = world100 and S = state100
        and build = mem_build and bs = mem_bs and pv = mem_pv and removeBlock = True
        and cfg = "Some ''/home''"]
      world101_loaded pvcall
    unfolding filter_empty_conv by blast
qed


end
